theory Spec2Isabelle
  imports Main "HOL-Library.Word" "HOL-Library.AList"
begin

section \<open>Strings of the source language\<close>

text \<open>
  A string of the source is a sequence of 16-bit code units. ASCII literals are written
  with \<open>str\<close>; the two non-ASCII characters of the source (the coffee cup of the preset
  decks and the a-tilde of the join failure message) are given by their code units.
\<close>

type_synonym jstring = "16 word list"

definition str :: "string \<Rightarrow> jstring" where
  "str s = map of_char s"

text \<open>
  White space as \<open>String.prototype.trim\<close> and the regular expression class \<open>\s\<close> see it:
  the WhiteSpace and LineTerminator code points of the language.
\<close>

definition is_space :: "16 word \<Rightarrow> bool" where
  "is_space c \<longleftrightarrow>
     c = 0x09 \<or> c = 0x0A \<or> c = 0x0B \<or> c = 0x0C \<or> c = 0x0D \<or> c = 0x20 \<or> c = 0xA0 \<or>
     c = 0x1680 \<or> (0x2000 \<le> c \<and> c \<le> 0x200A) \<or> c = 0x2028 \<or> c = 0x2029 \<or>
     c = 0x202F \<or> c = 0x205F \<or> c = 0x3000 \<or> c = 0xFEFF"

definition trim :: "jstring \<Rightarrow> jstring" where
  "trim s = rev (dropWhile is_space (rev (dropWhile is_space s)))"

text \<open>\<open>s.slice(a, b)\<close> for \<open>0 \<le> a \<le> b\<close> and \<open>s.slice(-n)\<close>.\<close>

definition slice :: "nat \<Rightarrow> nat \<Rightarrow> jstring \<Rightarrow> jstring" where
  "slice a b s = take (b - a) (drop a s)"

definition slice_last :: "nat \<Rightarrow> jstring \<Rightarrow> jstring" where
  "slice_last n s = drop (length s - n) s"

text \<open>
  \<open>toUpperCase\<close> on ASCII text: the source applies it to base-36 renderings only.
\<close>

definition upper_char :: "16 word \<Rightarrow> 16 word" where
  "upper_char c = (if 0x61 \<le> c \<and> c \<le> 0x7A then c - 0x20 else c)"

definition toUpperCase :: "jstring \<Rightarrow> jstring" where
  "toUpperCase s = map upper_char s"

section \<open>Objects used as dictionaries\<close>

text \<open>
  \<open>Record<string, T>\<close> is an association list in insertion order, read through its own
  keys: \<open>k in obj\<close> is \<open>has_key\<close>, \<open>obj[k]\<close> is \<open>map_of\<close>, \<open>obj[k] = v\<close> is \<open>obj_set\<close>
  (an existing key keeps its place, a new one goes last) and \<open>delete obj[k]\<close> is
  \<open>obj_delete\<close>. Keys are taken not to name a member of \<open>Object.prototype\<close>.
  \<open>Object.keys\<close> lists the array-index keys first, in ascending numeric order, and then
  the other keys in insertion order.
\<close>

definition has_key :: "jstring \<Rightarrow> (jstring \<times> 'v) list \<Rightarrow> bool" where
  "has_key k obj \<longleftrightarrow> map_of obj k \<noteq> None"

definition obj_set :: "jstring \<Rightarrow> 'v \<Rightarrow> (jstring \<times> 'v) list \<Rightarrow> (jstring \<times> 'v) list" where
  "obj_set k v obj = AList.update k v obj"

definition obj_delete :: "jstring \<Rightarrow> (jstring \<times> 'v) list \<Rightarrow> (jstring \<times> 'v) list" where
  "obj_delete k obj = AList.delete k obj"

definition is_digit :: "16 word \<Rightarrow> bool" where
  "is_digit c \<longleftrightarrow> 0x30 \<le> c \<and> c \<le> 0x39"

definition dec_value :: "jstring \<Rightarrow> nat" where
  "dec_value s = foldl (\<lambda>n c. 10 * n + unat (c - 0x30)) 0 s"

definition is_array_index :: "jstring \<Rightarrow> bool" where
  "is_array_index s \<longleftrightarrow>
     s \<noteq> [] \<and> list_all is_digit s \<and> (s = [0x30] \<or> take 1 s \<noteq> [0x30]) \<and>
     dec_value s < 2 ^ 32 - 1"

definition object_keys :: "(jstring \<times> 'v) list \<Rightarrow> jstring list" where
  "object_keys obj =
     (let ks = map fst obj
      in sort_key dec_value (filter is_array_index ks) @
         filter (\<lambda>k. \<not> is_array_index k) ks)"

section \<open>The room store\<close>

text \<open>
  The fields \<open>id\<close> and \<open>name\<close> of the source are \<open>p_id\<close> and \<open>p_name\<close> in a participant
  and \<open>r_id\<close> and \<open>r_name\<close> in a room, and the fields of the options of \<open>createRoom\<close>
  carry the prefix \<open>o_\<close>. \<open>joinedAt\<close> and \<open>createdAt\<close> are readings of the clock, in
  milliseconds. The table is a map from room ids to rooms: no operation depends on the
  order of its rooms.
\<close>

datatype DeckType = Fibonacci | Numeric | Custom

record ParticipantProfile =
  p_id :: jstring
  p_name :: jstring
  avatarColor :: jstring
  joinedAt :: int

record RoomState =
  r_id :: jstring
  r_name :: jstring
  deckType :: DeckType
  deckValues :: "jstring list"
  hostId :: jstring
  participants :: "(jstring \<times> ParticipantProfile) list"
  votes :: "(jstring \<times> jstring option) list"
  revealed :: bool
  createdAt :: nat

type_synonym RoomsMap = "jstring \<rightharpoonup> RoomState"

text \<open>
  \<open>updateRooms\<close> runs the mutator on a deep copy of the table and commits the copy. The
  copy (through \<open>JSON.stringify\<close> and \<open>JSON.parse\<close>) has the contents of the table, and
  writing to storage, broadcasting and notifying listeners do not touch the table, so on
  the table the effect is the mutator's.
\<close>

definition updateRooms :: "(RoomsMap \<Rightarrow> RoomsMap) \<Rightarrow> RoomsMap \<Rightarrow> RoomsMap" where
  "updateRooms mutator rooms = mutator rooms"

record CreateRoomOptions =
  o_name :: jstring
  o_deckType :: DeckType
  o_customDeck :: "jstring list option"
  o_host :: ParticipantProfile

definition PRESET_fibonacci :: "jstring list" where
  "PRESET_fibonacci =
     [str ''0'', str ''1'', str ''2'', str ''3'', str ''5'', str ''8'', str ''13'', str ''21'',
      str ''34'', str ''55'', str ''89'', str ''?'', [0x2615]]"

definition PRESET_numeric :: "jstring list" where
  "PRESET_numeric =
     [str ''0'', str ''1'', str ''2'', str ''3'', str ''4'', str ''5'', str ''6'', str ''7'',
      str ''8'', str ''9'', str ''10'', str ''?'', [0x2615]]"

fun resolveDeck :: "DeckType \<Rightarrow> jstring list option \<Rightarrow> jstring list" where
  "resolveDeck Custom customDeck =
     (let deck = filter (\<lambda>v. length v > 0)
                   (map trim (case customDeck of None \<Rightarrow> [] | Some d \<Rightarrow> d))
      in if length deck > 0 then deck else [str ''?''])"
| "resolveDeck Fibonacci customDeck = PRESET_fibonacci"
| "resolveDeck Numeric customDeck = PRESET_numeric"

subsection \<open>Room ids\<close>

text \<open>
  \<open>n.toString(36)\<close> for a non-negative integer, and for the value of \<open>Math.random()\<close>:
  a number in \<open>[0, 1)\<close> prints as \<open>0\<close> when it is zero and as \<open>0.\<close> followed by its
  fraction digits otherwise. The random source is given by the digits that are printed
  (\<open>Math.random() = 0.5\<close> prints \<open>0.i\<close>, the digit 18), the clock by its milliseconds.
\<close>

definition digit36 :: "nat \<Rightarrow> 16 word" where
  "digit36 d = (if d < 10 then of_nat (48 + d) else of_nat (87 + d))"

function to_base36 :: "nat \<Rightarrow> jstring" where
  "to_base36 n = (if n < 36 then [digit36 n] else to_base36 (n div 36) @ [digit36 (n mod 36)])"
  by pat_completeness auto
termination
  by (relation "measure (\<lambda>n. n)") auto

declare to_base36.simps [simp del]

definition random_toString36 :: "nat list \<Rightarrow> jstring" where
  "random_toString36 ds = (if ds = [] then str ''0'' else str ''0.'' @ map digit36 ds)"

definition generateRoomId :: "nat list \<Rightarrow> nat \<Rightarrow> jstring" where
  "generateRoomId random now =
     toUpperCase (slice 2 6 (random_toString36 random)) @ str ''-'' @
     toUpperCase (slice_last 4 (to_base36 now))"

subsection \<open>Mutation API\<close>

text \<open>
  Every operation takes the table and returns the new one. \<open>createRoom\<close> also takes what
  it reads from the environment: the random digits and the two clock readings.
\<close>

definition createRoom ::
  "nat list \<Rightarrow> nat \<Rightarrow> nat \<Rightarrow> CreateRoomOptions \<Rightarrow> RoomsMap \<Rightarrow> jstring \<times> RoomsMap" where
  "createRoom random now_id now_created options rooms =
     (let rid = generateRoomId random now_id;
          deck = resolveDeck (o_deckType options) (o_customDeck options);
          participant = \<lparr>p_id = p_id (o_host options), p_name = p_name (o_host options),
                         avatarColor = avatarColor (o_host options),
                         joinedAt = joinedAt (o_host options)\<rparr>;
          vs = [(p_id participant, None)];
          room = \<lparr>r_id = rid,
                  r_name = (if trim (o_name options) \<noteq> [] then trim (o_name options)
                            else str ''Sala sem nome''),
                  deckType = o_deckType options,
                  deckValues = deck,
                  hostId = p_id participant,
                  participants = [(p_id participant, participant)],
                  votes = vs,
                  revealed = False,
                  createdAt = now_created\<rparr>
      in (rid, updateRooms (\<lambda>draft. draft(rid \<mapsto> room)) rooms))"

record JoinRoomResult =
  success :: bool
  reason :: "jstring option"
  room :: "RoomState option"

definition joinRoom :: "jstring \<Rightarrow> ParticipantProfile \<Rightarrow> RoomsMap \<Rightarrow> JoinRoomResult \<times> RoomsMap" where
  "joinRoom roomId profile rooms =
     (case rooms roomId of
        None \<Rightarrow>
          (\<lparr>success = False,
            reason = Some (str ''Sala n'' @ [0xE3] @ str ''o encontrada.''),
            room = None\<rparr>, rooms)
      | Some currentRoom \<Rightarrow>
          (let rooms' = updateRooms (\<lambda>draft.
                 case draft roomId of
                   None \<Rightarrow> draft
                 | Some r \<Rightarrow>
                     (let r1 = r\<lparr>participants :=
                            obj_set (p_id profile)
                              \<lparr>p_id = p_id profile, p_name = p_name profile,
                               avatarColor = avatarColor profile,
                               joinedAt = (case map_of (participants r) (p_id profile) of
                                             Some old \<Rightarrow> joinedAt old
                                           | None \<Rightarrow> joinedAt profile)\<rparr>
                              (participants r)\<rparr>;
                          r2 = (if \<not> has_key (p_id profile) (votes r1)
                                then r1\<lparr>votes := obj_set (p_id profile) None (votes r1)\<rparr>
                                else r1)
                      in draft(roomId \<mapsto> r2))) rooms
           in (\<lparr>success = True, reason = None, room = rooms' roomId\<rparr>, rooms')))"

text \<open>The room that the mutator of \<open>joinRoom\<close> leaves in the table.\<close>

definition joined :: "ParticipantProfile \<Rightarrow> RoomState \<Rightarrow> RoomState" where
  "joined profile r =
     r\<lparr>participants :=
         obj_set (p_id profile)
           \<lparr>p_id = p_id profile, p_name = p_name profile, avatarColor = avatarColor profile,
            joinedAt = (case map_of (participants r) (p_id profile) of
                          Some old \<Rightarrow> joinedAt old | None \<Rightarrow> joinedAt profile)\<rparr>
           (participants r),
       votes := (if has_key (p_id profile) (votes r) then votes r
                 else obj_set (p_id profile) None (votes r))\<rparr>"

definition leaveRoom :: "jstring \<Rightarrow> jstring \<Rightarrow> RoomsMap \<Rightarrow> RoomsMap" where
  "leaveRoom roomId participantId rooms =
     (case rooms roomId of
        None \<Rightarrow> rooms
      | Some currentRoom \<Rightarrow>
          updateRooms (\<lambda>draft.
            case draft roomId of
              None \<Rightarrow> draft
            | Some r \<Rightarrow>
                (let r1 = r\<lparr>participants := obj_delete participantId (participants r),
                            votes := obj_delete participantId (votes r)\<rparr>;
                     remainingIds = object_keys (participants r1)
                 in case remainingIds of
                      [] \<Rightarrow> draft(roomId := None)
                    | first # _ \<Rightarrow>
                        (let r2 = (if hostId r1 = participantId then r1\<lparr>hostId := first\<rparr>
                                   else r1);
                             r3 = (if revealed r2 \<and> length remainingIds = 0
                                   then r2\<lparr>revealed := False\<rparr> else r2)
                         in draft(roomId \<mapsto> r3)))) rooms)"

record ProfileUpdates =
  u_name :: "jstring option"
  u_avatarColor :: "jstring option"

definition updateParticipantProfile ::
  "jstring \<Rightarrow> jstring \<Rightarrow> ProfileUpdates \<Rightarrow> RoomsMap \<Rightarrow> RoomsMap" where
  "updateParticipantProfile roomId participantId updates rooms =
     updateRooms (\<lambda>draft.
       case draft roomId of
         None \<Rightarrow> draft
       | Some r \<Rightarrow>
           (case map_of (participants r) participantId of
              None \<Rightarrow> draft
            | Some participant \<Rightarrow>
                draft(roomId \<mapsto> r\<lparr>participants :=
                  obj_set participantId
                    (participant\<lparr>p_name := (case u_name updates of
                                               None \<Rightarrow> p_name participant | Some n \<Rightarrow> n),
                                  avatarColor := (case u_avatarColor updates of
                                               None \<Rightarrow> avatarColor participant | Some c \<Rightarrow> c)\<rparr>)
                    (participants r)\<rparr>))) rooms"

definition submitVote :: "jstring \<Rightarrow> jstring \<Rightarrow> jstring option \<Rightarrow> RoomsMap \<Rightarrow> RoomsMap" where
  "submitVote roomId participantId v rooms =
     updateRooms (\<lambda>draft.
       case draft roomId of
         None \<Rightarrow> draft
       | Some r \<Rightarrow>
           if \<not> has_key participantId (participants r) then draft
           else (let r1 = r\<lparr>votes := obj_set participantId v (votes r)\<rparr>;
                     r2 = (if v = None then r1\<lparr>revealed := False\<rparr> else r1)
                 in draft(roomId \<mapsto> r2))) rooms"

definition revealVotes :: "jstring \<Rightarrow> RoomsMap \<Rightarrow> RoomsMap" where
  "revealVotes roomId rooms =
     updateRooms (\<lambda>draft.
       case draft roomId of
         None \<Rightarrow> draft
       | Some r \<Rightarrow> draft(roomId \<mapsto> r\<lparr>revealed := True\<rparr>)) rooms"

definition resetVotes :: "jstring \<Rightarrow> RoomsMap \<Rightarrow> RoomsMap" where
  "resetVotes roomId rooms =
     updateRooms (\<lambda>draft.
       case draft roomId of
         None \<Rightarrow> draft
       | Some r \<Rightarrow>
           draft(roomId \<mapsto>
             r\<lparr>votes := fold (\<lambda>participantId vs. obj_set participantId None vs)
                           (object_keys (votes r)) (votes r),
               revealed := False\<rparr>)) rooms"

definition removeParticipant :: "jstring \<Rightarrow> jstring \<Rightarrow> RoomsMap \<Rightarrow> RoomsMap" where
  "removeParticipant roomId participantId rooms = leaveRoom roomId participantId rooms"

definition transferHost :: "jstring \<Rightarrow> jstring \<Rightarrow> RoomsMap \<Rightarrow> RoomsMap" where
  "transferHost roomId newHostId rooms =
     updateRooms (\<lambda>draft.
       case draft roomId of
         None \<Rightarrow> draft
       | Some r \<Rightarrow>
           if \<not> has_key newHostId (participants r) then draft
           else draft(roomId \<mapsto> r\<lparr>hostId := newHostId\<rparr>)) rooms"

subsection \<open>Sequences of operations\<close>

datatype Operation =
    CreateRoom "nat list" nat nat CreateRoomOptions
  | JoinRoom jstring ParticipantProfile
  | LeaveRoom jstring jstring
  | UpdateParticipantProfile jstring jstring ProfileUpdates
  | SubmitVote jstring jstring "jstring option"
  | RevealVotes jstring
  | ResetVotes jstring
  | RemoveParticipant jstring jstring
  | TransferHost jstring jstring

fun apply_op :: "Operation \<Rightarrow> RoomsMap \<Rightarrow> RoomsMap" where
  "apply_op (CreateRoom random n1 n2 options) rooms = snd (createRoom random n1 n2 options rooms)"
| "apply_op (JoinRoom roomId profile) rooms = snd (joinRoom roomId profile rooms)"
| "apply_op (LeaveRoom roomId participantId) rooms = leaveRoom roomId participantId rooms"
| "apply_op (UpdateParticipantProfile roomId participantId updates) rooms =
     updateParticipantProfile roomId participantId updates rooms"
| "apply_op (SubmitVote roomId participantId v) rooms = submitVote roomId participantId v rooms"
| "apply_op (RevealVotes roomId) rooms = revealVotes roomId rooms"
| "apply_op (ResetVotes roomId) rooms = resetVotes roomId rooms"
| "apply_op (RemoveParticipant roomId participantId) rooms =
     removeParticipant roomId participantId rooms"
| "apply_op (TransferHost roomId newHostId) rooms = transferHost roomId newHostId rooms"

text \<open>The table after a sequence of operations on the empty table.\<close>

definition run :: "Operation list \<Rightarrow> RoomsMap" where
  "run ops = foldl (\<lambda>rooms operation. apply_op operation rooms) Map.empty ops"

section \<open>The custom deck of the create form\<close>

text \<open>
  \<open>parseCustomDeck\<close> splits its input at the regular expression \<open>\s*[,\n]\s*\<close>.
  \<open>match_separator s\<close> is the length of the match of that expression at the start of
  \<open>s\<close>, if there is one, found as the backtracking matcher finds it: the first \<open>\s*\<close>
  takes all the white space there is and gives it back one character at a time until
  \<open>[,\n]\<close> matches (\<open>separator_at\<close>), and the last \<open>\s*\<close> then takes all the white
  space that follows.
\<close>

definition separator_at :: "nat \<Rightarrow> jstring \<Rightarrow> nat option" where
  "separator_at k s =
     (case drop k s of
        [] \<Rightarrow> None
      | c # rest \<Rightarrow>
          if c = 0x2C \<or> c = 0x0A then Some (k + 1 + length (takeWhile is_space rest))
          else None)"

fun match_separator_from :: "nat \<Rightarrow> jstring \<Rightarrow> nat option" where
  "match_separator_from 0 s = separator_at 0 s"
| "match_separator_from (Suc k) s =
     (case separator_at (Suc k) s of
        Some e \<Rightarrow> Some e
      | None \<Rightarrow> match_separator_from k s)"

definition match_separator :: "jstring \<Rightarrow> nat option" where
  "match_separator s = match_separator_from (length (takeWhile is_space s)) s"

text \<open>
  \<open>String.prototype.split\<close> with that expression: it looks for a match at each position
  in turn; at a match it closes the current piece and goes on after the match; at the
  end of the input it closes the last piece.
\<close>

function split_separator :: "jstring \<Rightarrow> jstring \<Rightarrow> jstring list" where
  "split_separator piece [] = [piece]"
| "split_separator piece (c # cs) =
     (case match_separator (c # cs) of
        Some e \<Rightarrow> piece # split_separator [] (drop e (c # cs))
      | None \<Rightarrow> split_separator (piece @ [c]) cs)"
  by pat_completeness auto
termination
proof (relation "measure (\<lambda>(piece, s). length s)")
  show "wf (measure (\<lambda>(piece, s). length s))"
    by simp
next
  fix piece :: jstring and c cs
  show "((piece @ [c], cs), (piece, c # cs)) \<in> measure (\<lambda>(piece, s). length s)"
    by simp
next
  fix piece :: jstring and c cs e
  assume m: "match_separator (c # cs) = Some e"
  have at: "0 < j" if "separator_at k s = Some j" for k s j
    using that by (auto simp: separator_at_def split: list.splits if_splits)
  have "0 < j" if "match_separator_from k s = Some j" for k s j
    using that by (induction k) (auto split: option.splits dest: at)
  with m have "0 < e"
    unfolding match_separator_def by blast
  then show "(([], drop e (c # cs)), (piece, c # cs)) \<in> measure (\<lambda>(piece, s). length s)"
    by simp
qed

definition parseCustomDeck :: "jstring \<Rightarrow> jstring list" where
  "parseCustomDeck input = filter (\<lambda>v. v \<noteq> []) (map trim (split_separator [] input))"

text \<open>
  The options that \<open>handleCreateRoom\<close> of the create form passes to \<open>createRoom\<close>, from
  the room name, the deck type and the custom deck text of the form and the profile of
  the host (the session with its name trimmed and the time of the call).
\<close>

definition handleCreateRoom_options ::
  "jstring \<Rightarrow> DeckType \<Rightarrow> jstring \<Rightarrow> ParticipantProfile \<Rightarrow> CreateRoomOptions" where
  "handleCreateRoom_options roomName dt customDeckText hostProfile =
     \<lparr>o_name = (if trim roomName \<noteq> [] then trim roomName
                 else p_name hostProfile @ str '' - Planning Poker''),
      o_deckType = dt,
      o_customDeck = (if dt = Custom then Some (parseCustomDeck customDeckText) else None),
      o_host = hostProfile\<rparr>"

section \<open>Loading the table from storage\<close>








section \<open>The format of a room id\<close>

definition is_upper_alnum :: "16 word \<Rightarrow> bool" where
  "is_upper_alnum c \<longleftrightarrow> (0x30 \<le> c \<and> c \<le> 0x39) \<or> (0x41 \<le> c \<and> c \<le> 0x5A)"

definition room_id_format :: "jstring \<Rightarrow> bool" where
  "room_id_format s \<longleftrightarrow>
     length s = 9 \<and> s ! 4 = 0x2D \<and>
     list_all is_upper_alnum (take 4 s) \<and> list_all is_upper_alnum (drop 5 s)"

section \<open>The invariant of the table\<close>

text \<open>
  What every operation keeps: in each room the vote slots are those of the participants,
  there is a participant, and the host is one of them.
\<close>

definition room_inv :: "RoomState \<Rightarrow> bool" where
  "room_inv r \<longleftrightarrow>
     fst ` set (participants r) = fst ` set (votes r) \<and>
     participants r \<noteq> [] \<and>
     hostId r \<in> fst ` set (participants r)"

definition table_inv :: "RoomsMap \<Rightarrow> bool" where
  "table_inv rooms \<longleftrightarrow> (\<forall>roomId r. rooms roomId = Some r \<longrightarrow> room_inv r)"

section \<open>Concrete rooms\<close>

definition ana :: ParticipantProfile where
  "ana = \<lparr>p_id = str ''U1'', p_name = str ''Ana'', avatarColor = str ''#3498db'',
          joinedAt = 1700000000000\<rparr>"

definition bia :: ParticipantProfile where
  "bia = \<lparr>p_id = str ''U2'', p_name = str ''Bia'', avatarColor = str ''#e67e22'',
          joinedAt = 1700000000500\<rparr>"

definition ana_options :: CreateRoomOptions where
  "ana_options = \<lparr>o_name = str '' Sprint 12 '', o_deckType = Fibonacci,
                  o_customDeck = None, o_host = ana\<rparr>"

definition ana_room :: RoomState where
  "ana_room = \<lparr>r_id = str ''7234-3V28'', r_name = str ''Sprint 12'',
               deckType = Fibonacci, deckValues = PRESET_fibonacci,
               hostId = str ''U1'',
               participants = [(str ''U1'', ana)],
               votes = [(str ''U1'', None)],
               revealed = False, createdAt = 1700000000001\<rparr>"

definition duo_room :: RoomState where
  "duo_room = ana_room\<lparr>participants := [(str ''U1'', ana), (str ''U2'', bia)],
                        votes := [(str ''U1'', None), (str ''U2'', None)]\<rparr>"

definition ana_ops :: "Operation list" where
  "ana_ops = [CreateRoom [7, 2, 3, 4] 1700000000000 1700000000001 ana_options,
              JoinRoom (str ''7234-3V28'') bia]"

definition pair_room :: RoomState where
  "pair_room = ana_room\<lparr>participants := [(str ''U1'', ana), (str ''U2'', bia)],
                         votes := [(str ''U1'', Some (str ''5'')), (str ''U2'', Some (str ''8''))],
                         revealed := True\<rparr>"



definition blank_options :: CreateRoomOptions where
  "blank_options = \<lparr>o_name = str ''   '', o_deckType = Custom,
                    o_customDeck = Some [str '' 1'', str ''1 ''], o_host = ana\<rparr>"



section \<open>Facts about dictionaries\<close>

lemma has_key_iff: "has_key k obj \<longleftrightarrow> k \<in> fst ` set obj"
  by (simp add: has_key_def map_of_eq_None_iff)

lemma keys_obj_set: "fst ` set (obj_set k v obj) = insert k (fst ` set obj)"
  by (induction obj) (auto simp: obj_set_def)

lemma keys_obj_delete: "fst ` set (obj_delete k obj) = fst ` set obj - {k}"
  by (induction obj) (auto simp: obj_delete_def)

lemma set_object_keys: "set (object_keys obj) = fst ` set obj"
  by (auto simp: object_keys_def Let_def)

lemma keys_fold_obj_set:
  "fst ` set (fold (\<lambda>k vs. obj_set k v vs) ks obj) = fst ` set obj \<union> set ks"
  by (induction ks arbitrary: obj) (auto simp: keys_obj_set)

lemma obj_set_not_Nil: "obj_set k v obj \<noteq> []"
  by (cases obj) (auto simp: obj_set_def)





section \<open>The operations on a room that exists and on one that does not\<close>

lemma createRoom_room:
  "\<exists>r. createRoom random n1 n2 options rooms =
         (generateRoomId random n1, rooms(generateRoomId random n1 \<mapsto> r)) \<and>
       r_id r = generateRoomId random n1 \<and>
       r_name r = (if trim (o_name options) \<noteq> [] then trim (o_name options)
                   else str ''Sala sem nome'') \<and>
       deckType r = o_deckType options \<and>
       deckValues r = resolveDeck (o_deckType options) (o_customDeck options) \<and>
       hostId r = p_id (o_host options) \<and>
       participants r = [(p_id (o_host options), o_host options)] \<and>
       votes r = [(p_id (o_host options), None)] \<and>
       revealed r = False \<and> createdAt r = n2"
  apply (simp only: createRoom_def Let_def updateRooms_def)
  apply (rule exI, rule conjI, rule refl)
  apply simp
  done

lemma joinRoom_None:
  "rooms roomId = None \<Longrightarrow>
   joinRoom roomId profile rooms =
     (\<lparr>success = False, reason = Some (str ''Sala n'' @ [0xE3] @ str ''o encontrada.''),
       room = None\<rparr>, rooms)"
  by (simp add: joinRoom_def)

lemma joinRoom_Some:
  "rooms roomId = Some r \<Longrightarrow>
   joinRoom roomId profile rooms =
     (\<lparr>success = True, reason = None, room = Some (joined profile r)\<rparr>,
      rooms(roomId \<mapsto> joined profile r))"
  by (simp add: joinRoom_def updateRooms_def Let_def joined_def fun_eq_iff)

lemma leaveRoom_None: "rooms roomId = None \<Longrightarrow> leaveRoom roomId participantId rooms = rooms"
  by (simp add: leaveRoom_def)

lemma leaveRoom_last:
  "rooms roomId = Some r \<Longrightarrow> object_keys (obj_delete participantId (participants r)) = [] \<Longrightarrow>
   leaveRoom roomId participantId rooms = rooms(roomId := None)"
  by (simp add: leaveRoom_def updateRooms_def Let_def fun_eq_iff)

lemma leaveRoom_rest:
  "rooms roomId = Some r \<Longrightarrow>
   object_keys (obj_delete participantId (participants r)) = first # others \<Longrightarrow>
   leaveRoom roomId participantId rooms =
     rooms(roomId \<mapsto> r\<lparr>participants := obj_delete participantId (participants r),
                        votes := obj_delete participantId (votes r),
                        hostId := (if hostId r = participantId then first else hostId r)\<rparr>)"
  by (simp add: leaveRoom_def updateRooms_def Let_def fun_eq_iff)


lemma updateParticipantProfile_None:
  "rooms roomId = None \<Longrightarrow> updateParticipantProfile roomId participantId updates rooms = rooms"
  by (simp add: updateParticipantProfile_def updateRooms_def)

lemma updateParticipantProfile_absent:
  "rooms roomId = Some r \<Longrightarrow> \<not> has_key participantId (participants r) \<Longrightarrow>
   updateParticipantProfile roomId participantId updates rooms = rooms"
  by (simp add: updateParticipantProfile_def updateRooms_def has_key_def)

lemma updateParticipantProfile_present:
  "rooms roomId = Some r \<Longrightarrow> map_of (participants r) participantId = Some p \<Longrightarrow>
   updateParticipantProfile roomId participantId updates rooms =
     rooms(roomId \<mapsto> r\<lparr>participants :=
       obj_set participantId
         (p\<lparr>p_name := (case u_name updates of None \<Rightarrow> p_name p | Some n \<Rightarrow> n),
            avatarColor := (case u_avatarColor updates of None \<Rightarrow> avatarColor p | Some c \<Rightarrow> c)\<rparr>)
         (participants r)\<rparr>)"
  by (simp add: updateParticipantProfile_def updateRooms_def fun_eq_iff)

lemma submitVote_None: "rooms roomId = None \<Longrightarrow> submitVote roomId participantId v rooms = rooms"
  by (simp add: submitVote_def updateRooms_def)

lemma submitVote_absent:
  "rooms roomId = Some r \<Longrightarrow> \<not> has_key participantId (participants r) \<Longrightarrow>
   submitVote roomId participantId v rooms = rooms"
  by (simp add: submitVote_def updateRooms_def)

lemma submitVote_present:
  "rooms roomId = Some r \<Longrightarrow> has_key participantId (participants r) \<Longrightarrow>
   submitVote roomId participantId v rooms =
     rooms(roomId \<mapsto> r\<lparr>votes := obj_set participantId v (votes r),
                        revealed := (if v = None then False else revealed r)\<rparr>)"
  by (cases v) (simp_all add: submitVote_def updateRooms_def Let_def fun_eq_iff)

lemma revealVotes_None: "rooms roomId = None \<Longrightarrow> revealVotes roomId rooms = rooms"
  by (simp add: revealVotes_def updateRooms_def)

lemma revealVotes_Some:
  "rooms roomId = Some r \<Longrightarrow> revealVotes roomId rooms = rooms(roomId \<mapsto> r\<lparr>revealed := True\<rparr>)"
  by (simp add: revealVotes_def updateRooms_def fun_eq_iff)

lemma resetVotes_None: "rooms roomId = None \<Longrightarrow> resetVotes roomId rooms = rooms"
  by (simp add: resetVotes_def updateRooms_def)

lemma resetVotes_Some:
  "rooms roomId = Some r \<Longrightarrow>
   resetVotes roomId rooms =
     rooms(roomId \<mapsto> r\<lparr>votes := fold (\<lambda>k vs. obj_set k None vs) (object_keys (votes r)) (votes r),
                        revealed := False\<rparr>)"
  by (simp add: resetVotes_def updateRooms_def fun_eq_iff)

lemma transferHost_None: "rooms roomId = None \<Longrightarrow> transferHost roomId newHostId rooms = rooms"
  by (simp add: transferHost_def updateRooms_def)

lemma transferHost_absent:
  "rooms roomId = Some r \<Longrightarrow> \<not> has_key newHostId (participants r) \<Longrightarrow>
   transferHost roomId newHostId rooms = rooms"
  by (simp add: transferHost_def updateRooms_def)

lemma transferHost_present:
  "rooms roomId = Some r \<Longrightarrow> has_key newHostId (participants r) \<Longrightarrow>
   transferHost roomId newHostId rooms = rooms(roomId \<mapsto> r\<lparr>hostId := newHostId\<rparr>)"
  by (simp add: transferHost_def updateRooms_def fun_eq_iff)

section \<open>The invariant is kept\<close>

lemma table_inv_upd: "table_inv rooms \<Longrightarrow> room_inv r \<Longrightarrow> table_inv (rooms(k \<mapsto> r))"
  by (simp add: table_inv_def)

lemma table_inv_del: "table_inv rooms \<Longrightarrow> table_inv (rooms(k := None))"
  by (simp add: table_inv_def)

lemma table_invD: "table_inv rooms \<Longrightarrow> rooms k = Some r \<Longrightarrow> room_inv r"
  by (simp add: table_inv_def)

lemma createRoom_inv:
  assumes "table_inv rooms"
  shows "table_inv (snd (createRoom random n1 n2 options rooms))"
proof -
  obtain r where "createRoom random n1 n2 options rooms =
         (generateRoomId random n1, rooms(generateRoomId random n1 \<mapsto> r))"
    and "hostId r = p_id (o_host options)"
    and "participants r = [(p_id (o_host options), o_host options)]"
    and "votes r = [(p_id (o_host options), None)]"
    using createRoom_room [of random n1 n2 options rooms] by blast
  with assms show ?thesis
    by (simp add: room_inv_def table_inv_upd)
qed

lemma joinRoom_inv:
  assumes "table_inv rooms"
  shows "table_inv (snd (joinRoom roomId profile rooms))"
proof (cases "rooms roomId")
  case None
  with assms show ?thesis by (simp add: joinRoom_None)
next
  case (Some r)
  with assms have "room_inv r" by (rule table_invD)
  then have "room_inv (joined profile r)"
    by (auto simp: room_inv_def joined_def keys_obj_set obj_set_not_Nil has_key_iff)
  with assms Some show ?thesis
    by (simp add: joinRoom_Some table_inv_upd)
qed

lemma leaveRoom_inv:
  assumes inv: "table_inv rooms"
  shows "table_inv (leaveRoom roomId participantId rooms)"
proof (cases "rooms roomId")
  case None
  with inv show ?thesis by (simp add: leaveRoom_None)
next
  case (Some r)
  with inv have r: "room_inv r" by (rule table_invD)
  let ?ps = "obj_delete participantId (participants r)"
  show ?thesis
  proof (cases "object_keys ?ps")
    case Nil
    with Some inv show ?thesis
      by (simp add: leaveRoom_last table_inv_del)
  next
    case (Cons first others)
    then have "first \<in> set (object_keys ?ps)" by simp
    then have first: "first \<in> fst ` set ?ps" by (simp only: set_object_keys)
    then have ne: "?ps \<noteq> []" by auto
    from r first ne have "room_inv (r\<lparr>participants := ?ps,
        votes := obj_delete participantId (votes r),
        hostId := (if hostId r = participantId then first else hostId r)\<rparr>)"
      by (auto simp: room_inv_def keys_obj_delete)
    with Some Cons inv show ?thesis
      by (simp only: leaveRoom_rest table_inv_upd)
  qed
qed

lemma updateParticipantProfile_inv:
  assumes "table_inv rooms"
  shows "table_inv (updateParticipantProfile roomId participantId updates rooms)"
proof (cases "rooms roomId")
  case None
  with assms show ?thesis by (simp add: updateParticipantProfile_None)
next
  case (Some r)
  with assms have r: "room_inv r" by (rule table_invD)
  show ?thesis
  proof (cases "map_of (participants r) participantId")
    case None
    with assms Some show ?thesis
      by (simp add: updateParticipantProfile_absent has_key_def)
  next
    case (Some p)
    then have k: "participantId \<in> fst ` set (participants r)"
      by (metis has_key_def has_key_iff option.distinct(1))
    define p' where "p' = p\<lparr>p_name := (case u_name updates of None \<Rightarrow> p_name p | Some n \<Rightarrow> n),
            avatarColor := (case u_avatarColor updates of None \<Rightarrow> avatarColor p | Some c \<Rightarrow> c)\<rparr>"
    from \<open>rooms roomId = Some r\<close> Some have
      eq: "updateParticipantProfile roomId participantId updates rooms =
           rooms(roomId \<mapsto> r\<lparr>participants := obj_set participantId p' (participants r)\<rparr>)"
      unfolding p'_def by (rule updateParticipantProfile_present)
    from r k have "room_inv (r\<lparr>participants := obj_set participantId p' (participants r)\<rparr>)"
      by (auto simp: room_inv_def keys_obj_set obj_set_not_Nil)
    with assms eq show ?thesis
      by (simp only: table_inv_upd)
  qed
qed

lemma submitVote_inv:
  assumes "table_inv rooms"
  shows "table_inv (submitVote roomId participantId v rooms)"
proof (cases "rooms roomId")
  case None
  with assms show ?thesis by (simp add: submitVote_None)
next
  case (Some r)
  with assms have r: "room_inv r" by (rule table_invD)
  show ?thesis
  proof (cases "has_key participantId (participants r)")
    case False
    with assms Some show ?thesis by (simp add: submitVote_absent)
  next
    case True
    with r have "room_inv (r\<lparr>votes := obj_set participantId v (votes r),
                        revealed := (if v = None then False else revealed r)\<rparr>)"
      by (auto simp: room_inv_def keys_obj_set has_key_iff)
    with assms Some True show ?thesis
      by (simp only: submitVote_present table_inv_upd)
  qed
qed

lemma revealVotes_inv:
  assumes "table_inv rooms"
  shows "table_inv (revealVotes roomId rooms)"
proof (cases "rooms roomId")
  case None
  with assms show ?thesis by (simp add: revealVotes_None)
next
  case (Some r)
  with assms have "room_inv r" by (rule table_invD)
  then have "room_inv (r\<lparr>revealed := True\<rparr>)"
    by (auto simp: room_inv_def)
  with assms Some show ?thesis
    by (simp only: revealVotes_Some table_inv_upd)
qed

lemma resetVotes_inv:
  assumes "table_inv rooms"
  shows "table_inv (resetVotes roomId rooms)"
proof (cases "rooms roomId")
  case None
  with assms show ?thesis by (simp add: resetVotes_None)
next
  case (Some r)
  with assms have "room_inv r" by (rule table_invD)
  then have "room_inv (r\<lparr>votes := fold (\<lambda>k vs. obj_set k None vs) (object_keys (votes r)) (votes r),
                        revealed := False\<rparr>)"
    by (auto simp: room_inv_def keys_fold_obj_set set_object_keys)
  with assms Some show ?thesis
    by (simp only: resetVotes_Some table_inv_upd)
qed

lemma transferHost_inv:
  assumes "table_inv rooms"
  shows "table_inv (transferHost roomId newHostId rooms)"
proof (cases "rooms roomId")
  case None
  with assms show ?thesis by (simp add: transferHost_None)
next
  case (Some r)
  with assms have r: "room_inv r" by (rule table_invD)
  show ?thesis
  proof (cases "has_key newHostId (participants r)")
    case False
    with assms Some show ?thesis by (simp add: transferHost_absent)
  next
    case True
    with r have "room_inv (r\<lparr>hostId := newHostId\<rparr>)"
      by (auto simp: room_inv_def has_key_iff)
    with assms Some True show ?thesis
      by (simp only: transferHost_present table_inv_upd)
  qed
qed

lemma apply_op_inv: "table_inv rooms \<Longrightarrow> table_inv (apply_op operation rooms)"
  by (cases operation)
     (simp_all add: createRoom_inv joinRoom_inv leaveRoom_inv updateParticipantProfile_inv
        submitVote_inv revealVotes_inv resetVotes_inv transferHost_inv removeParticipant_def)

lemma run_inv: "table_inv (run ops)"
  unfolding run_def
  by (induction ops rule: rev_induct) (simp_all add: apply_op_inv, simp add: table_inv_def)

section \<open>Concrete rooms\<close>

lemma generateRoomId_ana: "generateRoomId [7, 2, 3, 4] 1700000000000 = str ''7234-3V28''"
  by (simp add: generateRoomId_def str_def random_toString36_def slice_def slice_last_def
        toUpperCase_def upper_char_def digit36_def to_base36.simps)

lemma trim_sprint: "trim (str '' Sprint 12 '') = str ''Sprint 12''"
  by (simp add: trim_def str_def is_space_def)

lemma createRoom_ana:
  "createRoom [7, 2, 3, 4] 1700000000000 1700000000001 ana_options rooms =
     (str ''7234-3V28'', rooms(str ''7234-3V28'' \<mapsto> ana_room))"
  apply (simp only: createRoom_def Let_def updateRooms_def generateRoomId_ana)
  apply (simp add: ana_options_def trim_sprint ana_room_def ana_def fun_eq_iff)
  apply (simp add: str_def)
  done

lemma joined_bia: "joined bia ana_room = duo_room"
  by (simp add: joined_def duo_room_def ana_room_def bia_def ana_def obj_set_def has_key_def
        str_def)

lemma run_ana_ops: "run ana_ops = [str ''7234-3V28'' \<mapsto> duo_room]"
  by (simp add: run_def ana_ops_def createRoom_ana joinRoom_Some joined_bia)

section \<open>Trimming and the custom deck\<close>

lemma trim_empty_iff: "trim s = [] \<longleftrightarrow> list_all is_space s"
proof
  assume "trim s = []"
  then have all: "\<forall>x \<in> set (dropWhile is_space s). is_space x"
    by (simp add: trim_def dropWhile_eq_Nil_conv)
  have "dropWhile is_space s = []"
  proof (rule ccontr)
    assume ne: "dropWhile is_space s \<noteq> []"
    then have "\<not> is_space (hd (dropWhile is_space s))"
      by (rule hd_dropWhile)
    moreover from ne have "hd (dropWhile is_space s) \<in> set (dropWhile is_space s)"
      by simp
    ultimately show False
      using all by blast
  qed
  then show "list_all is_space s"
    by (simp add: dropWhile_eq_Nil_conv list_all_iff)
next
  assume "list_all is_space s"
  then have "dropWhile is_space s = []"
    by (simp add: dropWhile_eq_Nil_conv list_all_iff)
  then show "trim s = []"
    by (simp only: trim_def rev.simps dropWhile.simps)
qed

lemma trim_decomposition:
  "\<exists>a b. s = a @ trim s @ b \<and> list_all is_space a \<and> list_all is_space b"
proof -
  let ?t = "dropWhile is_space s"
  let ?a = "takeWhile is_space s"
  let ?b = "rev (takeWhile is_space (rev ?t))"
  have "?t = rev (rev ?t)"
    by simp
  also have "\<dots> = rev (takeWhile is_space (rev ?t) @ dropWhile is_space (rev ?t))"
    by (simp only: takeWhile_dropWhile_id)
  also have "\<dots> = rev (dropWhile is_space (rev ?t)) @ ?b"
    by (rule rev_append)
  finally have "?t = trim s @ ?b"
    by (simp only: trim_def)
  then have "s = ?a @ trim s @ ?b"
    by (metis takeWhile_dropWhile_id)
  moreover have "list_all is_space ?a" "list_all is_space ?b"
    by (auto simp: list_all_iff dest: set_takeWhileD)
  ultimately show ?thesis
    by blast
qed

lemma trim_ends:
  assumes "trim s \<noteq> []"
  shows "\<not> is_space (hd (trim s))" and "\<not> is_space (last (trim s))"
proof -
  let ?t = "dropWhile is_space s"
  let ?u = "dropWhile is_space (rev ?t)"
  from assms have u: "?u \<noteq> []"
    by (simp add: trim_def)
  then have t: "?t \<noteq> []"
    by (metis dropWhile.simps(1) rev.simps(1))
  from u have "\<not> is_space (hd ?u)"
    by (rule hd_dropWhile)
  with u show "\<not> is_space (last (trim s))"
    by (simp add: trim_def last_rev)
  from u have "last ?u = last (rev ?t)"
    by (metis append_Nil2 last_appendR takeWhile_dropWhile_id)
  with t have "last ?u = hd ?t"
    by (simp add: last_rev)
  moreover from t have "\<not> is_space (hd ?t)"
    by (rule hd_dropWhile)
  ultimately show "\<not> is_space (hd (trim s))"
    using u by (simp add: trim_def hd_rev)
qed

lemma parseCustomDeck_example:
  "parseCustomDeck (str '' 1, 2,,  3 '' @ [0x0A] @ str ''5'') =
     [str ''1'', str ''2'', str ''3'', str ''5'']"
  by (simp add: parseCustomDeck_def str_def match_separator_def separator_at_def is_space_def
        trim_def)

lemma parseCustomDeck_all_empty:
  "\<forall>e \<in> set (split_separator [] input). trim e = [] \<Longrightarrow> parseCustomDeck input = []"
  by (simp add: parseCustomDeck_def filter_empty_conv)

section \<open>Decks and room ids\<close>





lemma unat_digit36: "d < 36 \<Longrightarrow> unat (digit36 d) = (if d < 10 then 48 + d else 87 + d)"
  by (simp add: digit36_def unat_word_ariths unat_of_nat)

lemma upper_digit36: "d < 36 \<Longrightarrow> is_upper_alnum (upper_char (digit36 d))"
proof -
  assume d: "d < 36"
  show ?thesis
  proof (cases "d < 10")
    case True
    with d have "unat (digit36 d) = 48 + d"
      by (simp add: unat_digit36)
    with True show ?thesis
      by (simp add: is_upper_alnum_def upper_char_def word_le_nat_alt)
  next
    case False
    with d have u: "unat (digit36 d) = 87 + d"
      by (simp add: unat_digit36)
    with d False have "0x61 \<le> digit36 d \<and> digit36 d \<le> 0x7A"
      by (simp add: word_le_nat_alt)
    moreover from u have "unat (digit36 d - 0x20) = 55 + d"
      by (simp add: unat_sub word_le_nat_alt)
    ultimately show ?thesis
      using d False by (simp add: is_upper_alnum_def upper_char_def word_le_nat_alt)
  qed
qed

lemma to_base36_small: "n < 36 \<Longrightarrow> to_base36 n = [digit36 n]"
  by (subst to_base36.simps) simp

lemma to_base36_large:
  "\<not> n < 36 \<Longrightarrow> to_base36 n = to_base36 (n div 36) @ [digit36 (n mod 36)]"
  by (subst to_base36.simps) simp

lemma to_base36_digits: "c \<in> set (to_base36 n) \<Longrightarrow> \<exists>d < 36. c = digit36 d"
proof (induction n rule: to_base36.induct)
  case (1 n)
  show ?case
  proof (cases "n < 36")
    case True
    with "1.prems" show ?thesis
      by (auto simp: to_base36_small)
  next
    case False
    with "1.prems" have "c \<in> set (to_base36 (n div 36)) \<or> c = digit36 (n mod 36)"
      by (auto simp: to_base36_large)
    then show ?thesis
    proof
      assume "c \<in> set (to_base36 (n div 36))"
      with False show ?thesis
        by (rule "1.IH")
    next
      assume "c = digit36 (n mod 36)"
      moreover have "n mod 36 < 36"
        by simp
      ultimately show ?thesis
        by blast
    qed
  qed
qed

lemma length_to_base36: "36 ^ k \<le> n \<Longrightarrow> k < length (to_base36 n)"
proof (induction k arbitrary: n)
  case 0
  show ?case
    by (cases "n < 36") (simp_all add: to_base36_small to_base36_large)
next
  case (Suc k)
  have "(1::nat) \<le> 36 ^ k"
    by simp
  then have "(36::nat) \<le> 36 ^ Suc k"
    by simp
  with Suc.prems have large: "\<not> n < 36"
    by linarith
  from Suc.prems have "36 ^ k \<le> n div 36"
    by (simp add: less_eq_div_iff_mult_less_eq mult.commute)
  then have "k < length (to_base36 (n div 36))"
    by (rule Suc.IH)
  with to_base36_large [OF large] show ?case
    by simp
qed


text \<open>
  When the random number prints with four fraction digits or more and the clock prints
  with four digits or more (from \<open>36 ^ 3\<close> milliseconds on), the room id has the format.
\<close>

lemma generateRoomId_format:
  assumes len: "4 \<le> length ds" and digs: "\<forall>d \<in> set ds. d < 36" and now: "36 ^ 3 \<le> now"
  shows "room_id_format (generateRoomId ds now)"
proof -
  let ?a = "toUpperCase (slice 2 6 (random_toString36 ds))"
  let ?b = "toUpperCase (slice_last 4 (to_base36 now))"
  from len have "ds \<noteq> []"
    by auto
  then have a: "?a = map (\<lambda>d. upper_char (digit36 d)) (take 4 ds)"
    by (simp add: random_toString36_def slice_def str_def toUpperCase_def take_map)
  with len have la: "length ?a = 4"
    by simp
  have "set (take 4 ds) \<subseteq> set ds"
    by (rule set_take_subset)
  with digs a have aa: "list_all is_upper_alnum ?a"
    by (auto simp: list_all_iff upper_digit36)
  from now have "3 < length (to_base36 now)"
    by (rule length_to_base36)
  then have lb: "length ?b = 4"
    by (simp add: toUpperCase_def slice_last_def)
  have "set (slice_last 4 (to_base36 now)) \<subseteq> set (to_base36 now)"
    unfolding slice_last_def by (rule set_drop_subset)
  then have bb: "list_all is_upper_alnum ?b"
    by (auto simp: list_all_iff toUpperCase_def dest!: subsetD to_base36_digits
          intro: upper_digit36)
  have "room_id_format (?a @ str ''-'' @ ?b)"
    using la lb aa bb by (simp add: room_id_format_def str_def nth_append)
  then show ?thesis
    by (simp only: generateRoomId_def)
qed

section \<open>The claims\<close>



text \<open>
  C2. No table that a sequence of operations builds from the empty table holds a room
  without participants; and when \<open>leaveRoom\<close> or \<open>removeParticipant\<close> takes the last
  participant out of a room, the room is deleted from the table.
\<close>

theorem no_empty_room:
  "(run ops roomId = Some r \<longrightarrow> participants r \<noteq> []) \<and>
   (rooms roomId' = Some r' \<and> has_key pid (participants r') \<and>
    (\<forall>k. has_key k (participants r') \<longrightarrow> k = pid) \<longrightarrow>
      leaveRoom roomId' pid rooms = rooms(roomId' := None) \<and>
      removeParticipant roomId' pid rooms = rooms(roomId' := None))"
proof (intro conjI impI)
  assume "run ops roomId = Some r"
  with run_inv [of ops] show "participants r \<noteq> []"
    by (simp add: table_inv_def room_inv_def)
next
  assume a: "rooms roomId' = Some r' \<and> has_key pid (participants r') \<and>
    (\<forall>k. has_key k (participants r') \<longrightarrow> k = pid)"
  then have "fst ` set (obj_delete pid (participants r')) = {}"
    by (auto simp: keys_obj_delete has_key_iff)
  then have "set (object_keys (obj_delete pid (participants r'))) = {}"
    by (simp only: set_object_keys)
  then have "object_keys (obj_delete pid (participants r')) = []"
    by simp
  with a show l: "leaveRoom roomId' pid rooms = rooms(roomId' := None)"
    by (simp add: leaveRoom_last)
  then show "removeParticipant roomId' pid rooms = rooms(roomId' := None)"
    by (simp add: removeParticipant_def)
qed

theorem no_empty_room_witness:
  "run ana_ops (str ''7234-3V28'') = Some duo_room \<and> participants duo_room \<noteq> [] \<and>
   has_key (str ''U1'') (participants ana_room) \<and>
   leaveRoom (str ''7234-3V28'') (str ''U1'') [str ''7234-3V28'' \<mapsto> ana_room] = Map.empty \<and>
   removeParticipant (str ''7234-3V28'') (str ''U1'') [str ''7234-3V28'' \<mapsto> ana_room] = Map.empty"
proof -
  let ?t = "[str ''7234-3V28'' \<mapsto> ana_room]"
  have h: "run ana_ops (str ''7234-3V28'') = Some duo_room"
    by (simp add: run_ana_ops)
  have a: "?t (str ''7234-3V28'') = Some ana_room \<and> has_key (str ''U1'') (participants ana_room) \<and>
    (\<forall>k. has_key k (participants ana_room) \<longrightarrow> k = str ''U1'')"
    by (simp add: has_key_def ana_room_def)
  from no_empty_room [of ana_ops "str ''7234-3V28''" duo_room ?t "str ''7234-3V28''" ana_room
      "str ''U1''"] h a
  show ?thesis
    by simp
qed







text \<open>
  C5. When the host leaves a room in which there is another participant, the room stays
  in the table without the host and the host's vote slot, the other participants are as
  they were, and the new host is one of them: the first key of the remaining
  participants, so not the old host.
\<close>

theorem host_reassignment:
  "rooms roomId = Some r \<Longrightarrow> hostId r = h \<Longrightarrow> has_key h (participants r) \<Longrightarrow>
   has_key other (participants r) \<Longrightarrow> other \<noteq> h \<Longrightarrow>
   \<exists>r'. leaveRoom roomId h rooms = rooms(roomId \<mapsto> r') \<and>
        participants r' = obj_delete h (participants r) \<and>
        votes r' = obj_delete h (votes r) \<and>
        \<not> has_key h (participants r') \<and>
        (\<forall>k. k \<noteq> h \<longrightarrow> map_of (participants r') k = map_of (participants r) k) \<and>
        has_key (hostId r') (participants r') \<and> hostId r' \<noteq> h \<and>
        object_keys (participants r') \<noteq> [] \<and>
        hostId r' = hd (object_keys (participants r'))"
proof -
  assume room: "rooms roomId = Some r" and host: "hostId r = h"
    and other: "has_key other (participants r)" "other \<noteq> h"
  let ?ps = "obj_delete h (participants r)"
  from other have "other \<in> set (object_keys ?ps)"
    by (simp add: set_object_keys keys_obj_delete has_key_iff)
  then obtain first others where keys: "object_keys ?ps = first # others"
    by (cases "object_keys ?ps") auto
  then have "first \<in> set (object_keys ?ps)"
    by simp
  then have first: "first \<in> fst ` set (participants r) - {h}"
    by (simp only: set_object_keys keys_obj_delete)
  let ?r' = "r\<lparr>participants := ?ps, votes := obj_delete h (votes r),
                hostId := (if hostId r = h then first else hostId r)\<rparr>"
  have "leaveRoom roomId h rooms = rooms(roomId \<mapsto> ?r')"
    using room keys by (rule leaveRoom_rest)
  moreover have "votes ?r' = obj_delete h (votes r)"
    by simp
  moreover have "\<not> has_key h (participants ?r')"
    by (simp add: has_key_iff keys_obj_delete)
  moreover have "\<forall>k. k \<noteq> h \<longrightarrow> map_of (participants ?r') k = map_of (participants r) k"
    by (simp add: obj_delete_def delete_conv')
  moreover have "has_key (hostId ?r') (participants ?r')" "hostId ?r' \<noteq> h"
    using first host by (auto simp: has_key_iff keys_obj_delete)
  moreover have "object_keys (participants ?r') \<noteq> []"
      "hostId ?r' = hd (object_keys (participants ?r'))"
    using keys host by simp_all
  ultimately show ?thesis
    by (intro exI [of _ ?r']) simp
qed

theorem host_reassignment_witness:
  "[str ''7234-3V28'' \<mapsto> pair_room] (str ''7234-3V28'') = Some pair_room \<and>
   hostId pair_room = str ''U1'' \<and> has_key (str ''U1'') (participants pair_room) \<and>
   has_key (str ''U2'') (participants pair_room) \<and> str ''U2'' \<noteq> str ''U1'' \<and>
   (\<exists>r'. leaveRoom (str ''7234-3V28'') (str ''U1'') [str ''7234-3V28'' \<mapsto> pair_room] =
           [str ''7234-3V28'' \<mapsto> r'] \<and> hostId r' = str ''U2'')"
proof -
  let ?t = "[str ''7234-3V28'' \<mapsto> pair_room]"
  have 1: "?t (str ''7234-3V28'') = Some pair_room"
    by simp
  have 2: "hostId pair_room = str ''U1''"
    by (simp add: pair_room_def ana_room_def)
  have 3: "has_key (str ''U1'') (participants pair_room)"
    by (simp add: has_key_def pair_room_def)
  have 4: "has_key (str ''U2'') (participants pair_room)"
    by (simp add: has_key_def pair_room_def)
  have 5: "str ''U2'' \<noteq> str ''U1''"
    by (simp add: str_def)
  have keys: "object_keys (obj_delete (str ''U1'') (participants pair_room)) = [str ''U2'']"
    by (simp add: pair_room_def obj_delete_def object_keys_def is_array_index_def is_digit_def
          str_def)
  from host_reassignment [where rooms = ?t and roomId = "str ''7234-3V28''", OF 1 2 3 4 5]
  obtain r' where
    "leaveRoom (str ''7234-3V28'') (str ''U1'') ?t = ?t(str ''7234-3V28'' \<mapsto> r')"
    "participants r' = obj_delete (str ''U1'') (participants pair_room)"
    "hostId r' = hd (object_keys (participants r'))"
    by blast
  with keys have "leaveRoom (str ''7234-3V28'') (str ''U1'') ?t = [str ''7234-3V28'' \<mapsto> r'] \<and>
      hostId r' = str ''U2''"
    by simp
  with 1 2 3 4 5 show ?thesis
    by blast
qed




text \<open>
  C7. A room created from the create form with a custom deck and the text
  \<open>" 1, 2,,  3 \n5"\<close> has the deck \<open>1, 2, 3, 5\<close>; and when every piece of the text
  between separators is empty after trimming, as for the empty text, the deck is the
  single placeholder \<open>?\<close>.
\<close>

theorem custom_deck_resolution:
  "(\<exists>r. createRoom random n1 n2
           (handleCreateRoom_options roomName Custom
              (str '' 1, 2,,  3 '' @ [0x0A] @ str ''5'') h) rooms =
           (generateRoomId random n1, rooms(generateRoomId random n1 \<mapsto> r)) \<and>
         deckValues r = [str ''1'', str ''2'', str ''3'', str ''5'']) \<and>
   ((\<forall>e \<in> set (split_separator [] input). trim e = []) \<longrightarrow>
      (\<exists>r. createRoom random n1 n2 (handleCreateRoom_options roomName Custom input h) rooms =
             (generateRoomId random n1, rooms(generateRoomId random n1 \<mapsto> r)) \<and>
           deckValues r = [str ''?''])) \<and>
   (\<exists>r. createRoom random n1 n2 (handleCreateRoom_options roomName Custom [] h) rooms =
           (generateRoomId random n1, rooms(generateRoomId random n1 \<mapsto> r)) \<and>
         deckValues r = [str ''?''])"
proof (intro conjI impI)
  let ?text = "str '' 1, 2,,  3 '' @ [0x0A] @ str ''5''"
  have "resolveDeck Custom (Some (parseCustomDeck ?text)) =
      [str ''1'', str ''2'', str ''3'', str ''5'']"
    by (simp only: parseCustomDeck_example) (simp add: str_def trim_def is_space_def)
  with createRoom_room [of random n1 n2 "handleCreateRoom_options roomName Custom ?text h" rooms]
  show "\<exists>r. createRoom random n1 n2 (handleCreateRoom_options roomName Custom ?text h) rooms =
           (generateRoomId random n1, rooms(generateRoomId random n1 \<mapsto> r)) \<and>
         deckValues r = [str ''1'', str ''2'', str ''3'', str ''5'']"
    by (auto simp: handleCreateRoom_options_def)
next
  assume "\<forall>e \<in> set (split_separator [] input). trim e = []"
  then have "resolveDeck Custom (Some (parseCustomDeck input)) = [str ''?'']"
    by (simp add: parseCustomDeck_all_empty)
  with createRoom_room [of random n1 n2 "handleCreateRoom_options roomName Custom input h" rooms]
  show "\<exists>r. createRoom random n1 n2 (handleCreateRoom_options roomName Custom input h) rooms =
           (generateRoomId random n1, rooms(generateRoomId random n1 \<mapsto> r)) \<and>
         deckValues r = [str ''?'']"
    by (auto simp: handleCreateRoom_options_def)
next
  have "resolveDeck Custom (Some (parseCustomDeck [])) = [str ''?'']"
    by (simp add: parseCustomDeck_def trim_def)
  with createRoom_room [of random n1 n2 "handleCreateRoom_options roomName Custom [] h" rooms]
  show "\<exists>r. createRoom random n1 n2 (handleCreateRoom_options roomName Custom [] h) rooms =
           (generateRoomId random n1, rooms(generateRoomId random n1 \<mapsto> r)) \<and>
         deckValues r = [str ''?'']"
    by (auto simp: handleCreateRoom_options_def)
qed

theorem custom_deck_resolution_witness:
  "split_separator [] (str '' , ,'') = [[], [], []] \<and> trim [] = [] \<and>
   (\<exists>r. createRoom [7, 2, 3, 4] 1700000000000 1700000000001
           (handleCreateRoom_options (str ''Sprint'') Custom (str '' , ,'') ana) Map.empty =
           (str ''7234-3V28'', [str ''7234-3V28'' \<mapsto> r]) \<and>
         deckValues r = [str ''?''])"
proof -
  have pieces: "split_separator [] (str '' , ,'') = [[], [], []]"
    by (simp add: str_def match_separator_def separator_at_def is_space_def)
  have blank: "trim [] = []"
    by (simp add: trim_def)
  from pieces blank have "\<forall>e \<in> set (split_separator [] (str '' , ,'')). trim e = []"
    by simp
  with custom_deck_resolution [of "[7, 2, 3, 4]" 1700000000000 1700000000001 "str ''Sprint''"
      ana Map.empty "str '' , ,''"] pieces blank
  show ?thesis
    by (simp only: generateRoomId_ana)
qed




text \<open>
  C9. Every room id is to have the format \<open>XXXX-YYYY\<close>, two groups of four upper-case
  letters or digits. The code does not keep it for every value of the random source:
  with \<open>Math.random() = 0.5\<close>, which prints as \<open>0.i\<close> in base 36, the room id is
  \<open>I-3V28\<close>, where the group before the dash has one character.
\<close>

theorem generateRoomId_short_random:
  "generateRoomId [18] 1700000000000 = str ''I-3V28'' \<and>
   \<not> room_id_format (generateRoomId [18] 1700000000000)"
proof -
  have "generateRoomId [18] 1700000000000 = str ''I-3V28''"
    by (simp add: generateRoomId_def str_def random_toString36_def slice_def slice_last_def
          toUpperCase_def upper_char_def digit36_def to_base36.simps)
  then show ?thesis
    by (simp add: room_id_format_def str_def)
qed

text \<open>
  C10. The name of a created room is the placeholder \<open>Sala sem nome\<close> when the name
  given to \<open>createRoom\<close> is empty or consists of white space only, and the given name
  without its leading and trailing white space otherwise: the given name is then white
  space, the room name, white space, and the room name neither starts nor ends with
  white space.
\<close>

theorem createRoom_name:
  "\<exists>r. createRoom random n1 n2 options rooms =
          (generateRoomId random n1, rooms(generateRoomId random n1 \<mapsto> r)) \<and>
        r_name r = (if list_all is_space (o_name options) then str ''Sala sem nome''
                    else trim (o_name options)) \<and>
        (\<not> list_all is_space (o_name options) \<longrightarrow>
           (\<exists>a b. o_name options = a @ r_name r @ b \<and>
                  list_all is_space a \<and> list_all is_space b) \<and>
           \<not> is_space (hd (r_name r)) \<and> \<not> is_space (last (r_name r)))"
proof -
  obtain r where r: "createRoom random n1 n2 options rooms =
          (generateRoomId random n1, rooms(generateRoomId random n1 \<mapsto> r))"
    and name: "r_name r = (if trim (o_name options) \<noteq> [] then trim (o_name options)
                   else str ''Sala sem nome'')"
    using createRoom_room [of random n1 n2 options rooms] by blast
  from name have 1: "r_name r = (if list_all is_space (o_name options) then str ''Sala sem nome''
                    else trim (o_name options))"
    by (simp add: trim_empty_iff)
  have 2: "\<not> list_all is_space (o_name options) \<longrightarrow>
           (\<exists>a b. o_name options = a @ r_name r @ b \<and>
                  list_all is_space a \<and> list_all is_space b) \<and>
           \<not> is_space (hd (r_name r)) \<and> \<not> is_space (last (r_name r))"
  proof
    assume n: "\<not> list_all is_space (o_name options)"
    then have "trim (o_name options) \<noteq> []"
      by (simp add: trim_empty_iff)
    with 1 n trim_decomposition [of "o_name options"] trim_ends [of "o_name options"]
    show "(\<exists>a b. o_name options = a @ r_name r @ b \<and>
                  list_all is_space a \<and> list_all is_space b) \<and>
           \<not> is_space (hd (r_name r)) \<and> \<not> is_space (last (r_name r))"
      by simp
  qed
  from r 1 2 show ?thesis
    by blast
qed

theorem createRoom_name_witness:
  "list_all is_space (o_name blank_options) \<and>
   (\<exists>r. createRoom [7, 2, 3, 4] 1700000000000 1700000000001 blank_options Map.empty =
          (str ''7234-3V28'', [str ''7234-3V28'' \<mapsto> r]) \<and>
        r_name r = str ''Sala sem nome'') \<and>
   \<not> list_all is_space (o_name ana_options) \<and>
   (\<exists>r. createRoom [7, 2, 3, 4] 1700000000000 1700000000001 ana_options Map.empty =
          (str ''7234-3V28'', [str ''7234-3V28'' \<mapsto> r]) \<and>
        r_name r = str ''Sprint 12'' \<and> \<not> is_space (hd (r_name r)))"
proof -
  have blank: "list_all is_space (o_name blank_options)"
    by (simp add: blank_options_def str_def is_space_def)
  have named: "\<not> list_all is_space (o_name ana_options)"
    by (simp add: ana_options_def str_def is_space_def)
  have trimmed: "trim (o_name ana_options) = str ''Sprint 12''"
    by (simp add: ana_options_def trim_sprint)
  from createRoom_name [of "[7, 2, 3, 4]" 1700000000000 1700000000001 blank_options Map.empty] blank
  have 1: "\<exists>r. createRoom [7, 2, 3, 4] 1700000000000 1700000000001 blank_options Map.empty =
          (str ''7234-3V28'', [str ''7234-3V28'' \<mapsto> r]) \<and> r_name r = str ''Sala sem nome''"
    by (simp add: generateRoomId_ana)
  from createRoom_name [of "[7, 2, 3, 4]" 1700000000000 1700000000001 ana_options Map.empty]
    named trimmed
  have 2: "\<exists>r. createRoom [7, 2, 3, 4] 1700000000000 1700000000001 ana_options Map.empty =
          (str ''7234-3V28'', [str ''7234-3V28'' \<mapsto> r]) \<and> r_name r = str ''Sprint 12'' \<and>
          \<not> is_space (hd (r_name r))"
    by (simp only: generateRoomId_ana) auto
  from blank named 1 2 show ?thesis
    by blast
qed

end
